theory Spec2Isabelle
  imports Main "HOL-Library.Sublist"
begin

section \<open>Go values used by the router\<close>

text \<open>
  \<^verbatim>\<open>type Middleware func(http.Handler) http.Handler\<close>

  The type \<open>'h\<close> stands for \<^verbatim>\<open>http.Handler\<close> values. A Go function value can be
  nil, so a slot that holds a middleware is an \<open>option\<close>, with \<open>None\<close> for nil.
\<close>

type_synonym 'h Middleware = "'h \<Rightarrow> 'h"

text \<open>
  A panic carries its message. The first three messages are the ones written in the
  source; the last two are raised by the Go runtime (a call through a nil function value,
  an index outside a slice).
\<close>

datatype panic = Panic string

definition nil_middleware_param :: panic where
  "nil_middleware_param = Panic ''middlewares parameter cannot contain nil middlewares''"

definition nil_route_param :: panic where
  "nil_route_param = Panic ''routes parameter cannot contain nil routes''"

definition nil_walkFn_param :: panic where
  "nil_walkFn_param = Panic ''walkFn parameter cannot be nil''"

definition nil_dereference :: panic where
  "nil_dereference = Panic ''runtime error: invalid memory address or nil pointer dereference''"

definition index_out_of_range :: panic where
  "index_out_of_range = Panic ''runtime error: index out of range''"


section \<open>Slices over a store of backing arrays\<close>

text \<open>
  A Go slice is a window \<open>(array, len, cap)\<close> on a backing array, and \<^verbatim>\<open>append\<close>
  writes into the spare capacity of that array when the new elements fit. Two slices
  obtained from the same slice by \<^verbatim>\<open>append\<close> can therefore share storage, which is what
  \<^verbatim>\<open>inspectRoute\<close> does with the accumulated middleware slice. The backing arrays live in
  a store: array \<open>n\<close> is the \<open>n\<close>-th element of the store, and a fresh array is
  allocated at the end. All slices of the program start at offset 0 of their array (the
  source never reslices).
\<close>

datatype slice = Slice (arr: nat) (len: nat) (cap: nat)

type_synonym 'h arrays = "'h Middleware option list list"

text \<open>\<^verbatim>\<open>[]Middleware{}\<close> and the nil slice: length 0, capacity 0, no storage.\<close>

definition empty_slice :: slice where
  "empty_slice = Slice 0 0 0"

text \<open>The elements a reader of the slice sees: the first \<open>len\<close> slots of its array.\<close>

definition slice_elems :: "'h arrays \<Rightarrow> slice \<Rightarrow> 'h Middleware option list" where
  "slice_elems a s = take (len s) (a ! arr s)"

text \<open>A slice that the Go runtime can have produced over the store \<open>a\<close>.\<close>

definition valid_slice :: "'h arrays \<Rightarrow> slice \<Rightarrow> bool" where
  "valid_slice a s \<longleftrightarrow>
     len s \<le> cap s \<and> (cap s = 0 \<or> (arr s < length a \<and> length (a ! arr s) = cap s))"

text \<open>\<^verbatim>\<open>s[i]\<close> with Go's bounds check; \<open>i\<close> is a Go \<^verbatim>\<open>int\<close>.\<close>

definition slice_index :: "'h arrays \<Rightarrow> slice \<Rightarrow> int \<Rightarrow> panic + 'h Middleware option" where
  "slice_index a s i =
     (if 0 \<le> i \<and> i < int (len s) then Inr (a ! arr s ! nat i) else Inl index_out_of_range)"

text \<open>
  \<^verbatim>\<open>append(s, xs...)\<close>. With \<open>n = len(s) + len(xs)\<close>: when \<open>n \<le> cap(s)\<close> the elements
  are written in place after the first \<open>len(s)\<close> slots and the result shares the array
  of \<open>s\<close>; otherwise a new array is allocated, the old elements and \<open>xs\<close> are copied into
  it and the remaining slots are nil. The capacity of the new array is chosen by the Go
  runtime, which is not part of the repository: it is the parameter \<open>grow\<close> (old
  capacity, needed length), and Go guarantees only that the new array is large enough,
  hence the \<open>max\<close>.
\<close>

definition append_slice ::
  "(nat \<Rightarrow> nat \<Rightarrow> nat) \<Rightarrow> slice \<Rightarrow> 'h Middleware option list \<Rightarrow> 'h arrays \<Rightarrow> slice \<times> 'h arrays"
where
  "append_slice grow s xs a =
     (let n = len s + length xs in
      if n \<le> cap s
      then (Slice (arr s) n (cap s),
            a[arr s := take (len s) (a ! arr s) @ xs @ drop n (a ! arr s)])
      else (let c = max n (grow (cap s) n) in
            (Slice (length a) n c,
             a @ [take (len s) (a ! arr s) @ xs @ replicate (c - n) None])))"


section \<open>The Middleware Composer\<close>

text \<open>
  \<^verbatim>\<open>
  func applyMiddleware(mws ...Middleware) Middleware {
      return func(next http.Handler) http.Handler {
          for i := len(mws) - 1; i >= 0; i-- {
              x := mws[i]
              next = x(next)
          }
          return next
      }
  }
  \<close>
  The returned closure keeps the slice \<open>mws\<close>, not a copy of its elements: it reads the
  elements from the store at the time it is called, so it takes the store as an
  argument. Calling a nil \<open>x\<close> panics.
\<close>

function applyMiddleware_loop ::
  "'h arrays \<Rightarrow> slice \<Rightarrow> int \<Rightarrow> 'h \<Rightarrow> panic + 'h"
where
  "applyMiddleware_loop a mws i next =
     (if i \<ge> 0 then
        (case slice_index a mws i of
           Inl p \<Rightarrow> Inl p
         | Inr None \<Rightarrow> Inl nil_dereference
         | Inr (Some x) \<Rightarrow> applyMiddleware_loop a mws (i - 1) (x next))
      else Inr next)"
  by pat_completeness auto
termination
  by (relation "measure (\<lambda>(a, mws, i, next). nat (i + 1))") auto

declare applyMiddleware_loop.simps [simp del]

definition applyMiddleware :: "slice \<Rightarrow> 'h arrays \<Rightarrow> 'h \<Rightarrow> panic + 'h" where
  "applyMiddleware mws = (\<lambda>a next. applyMiddleware_loop a mws (int (len mws) - 1) next)"


section \<open>Route nodes\<close>

text \<open>
  \<^verbatim>\<open>
  type Route struct {
      Path        string
      Middlewares []Middleware
      Routes      []*Route
      Handler     http.HandlerFunc
      Method      string
  }
  \<close>
  The spec's data model is a tree with exclusive ownership of children, so a route and
  the routes below it are a value of a datatype and the child slice is the list of
  subtrees: a child of a tree is never nil (\<^verbatim>\<open>Add\<close> rejects nil) and no node is reached
  twice. The middleware slice of a node stays a Go slice over the store of arrays. A nil
  \<^verbatim>\<open>Handler\<close> is \<open>None\<close>.
\<close>

datatype 'h Route =
  Route (Path: string) (Middlewares: slice) (Routes: "'h Route list")
        (Handler: "'h option") (Method: string)

text \<open>
  What the program does to the outside, in the order it does it: the creation of an
  \<^verbatim>\<open>http.ServeMux\<close>, a call of \<^verbatim>\<open>Handle\<close> on the \<open>n\<close>-th mux created, and a call of a
  walk callback \<open>f\<close>. The callback is recorded with what it is given: the node, the
  path, and the elements of the middleware slice as they are when it is called. The
  external router is not part of the repository: it is modelled as the record of the
  registrations it receives and does not reject any.
\<close>

datatype ('f, 'h) call =
    NewServeMux_call
  | Handle_call nat string 'h
  | WalkFn_call 'f "'h Route" string "'h Middleware option list"

record ('f, 'h) world =
  arrays :: "'h arrays"
  calls :: "('f, 'h) call list"

fun is_NewServeMux :: "('f, 'h) call \<Rightarrow> bool" where
  "is_NewServeMux NewServeMux_call = True"
| "is_NewServeMux _ = False"

text \<open>\<^verbatim>\<open>http.NewServeMux()\<close>: a new mux, numbered by the muxes created before it.\<close>

definition http_NewServeMux :: "('f, 'h) world \<Rightarrow> nat \<times> ('f, 'h) world" where
  "http_NewServeMux w =
     (length (filter is_NewServeMux (calls w)), w\<lparr>calls := calls w @ [NewServeMux_call]\<rparr>)"

text \<open>\<^verbatim>\<open>router.Handle(pattern, handler)\<close>.\<close>

definition ServeMux_Handle :: "nat \<Rightarrow> string \<Rightarrow> 'h \<Rightarrow> ('f, 'h) world \<Rightarrow> ('f, 'h) world" where
  "ServeMux_Handle router pattern handler w =
     w\<lparr>calls := calls w @ [Handle_call router pattern handler]\<rparr>"





text \<open>
  \<^verbatim>\<open>NewRoute\<close> and the per-method constructors. The handler given to a per-method
  constructor may be nil.
\<close>

definition NewRoute :: "string \<Rightarrow> 'h Route" where
  "NewRoute path = Route path empty_slice [] None ''''"

definition Get :: "'h option \<Rightarrow> 'h Route" where
  "Get handler = Route '''' empty_slice [] handler ''GET''"

definition Head :: "'h option \<Rightarrow> 'h Route" where
  "Head handler = Route '''' empty_slice [] handler ''HEAD''"

definition Post :: "'h option \<Rightarrow> 'h Route" where
  "Post handler = Route '''' empty_slice [] handler ''POST''"

definition Put :: "'h option \<Rightarrow> 'h Route" where
  "Put handler = Route '''' empty_slice [] handler ''PUT''"

definition Patch :: "'h option \<Rightarrow> 'h Route" where
  "Patch handler = Route '''' empty_slice [] handler ''PATCH''"

definition Delete :: "'h option \<Rightarrow> 'h Route" where
  "Delete handler = Route '''' empty_slice [] handler ''DELETE''"

definition Connect :: "'h option \<Rightarrow> 'h Route" where
  "Connect handler = Route '''' empty_slice [] handler ''CONNECT''"

definition Options :: "'h option \<Rightarrow> 'h Route" where
  "Options handler = Route '''' empty_slice [] handler ''OPTIONS''"

definition Trace :: "'h option \<Rightarrow> 'h Route" where
  "Trace handler = Route '''' empty_slice [] handler ''TRACE''"

definition All :: "'h option \<Rightarrow> 'h Route" where
  "All handler = Route '''' empty_slice [] handler ''''"

text \<open>
  \<^verbatim>\<open>
  func (r *Route) Use(middlewares ...Middleware) *Route {
      for _, mw := range middlewares {
          if mw == nil { panic("middlewares parameter cannot contain nil middlewares") }
      }
      r.Middlewares = append(r.Middlewares, middlewares...)
      return r
  }
  \<close>
  The method mutates the node it is called on. The model returns the outcome (a panic or
  none), the node after the call and the world after the call.
\<close>

fun Use_range :: "'h Middleware option list \<Rightarrow> panic option" where
  "Use_range [] = None"
| "Use_range (mw # middlewares) =
     (case mw of None \<Rightarrow> Some nil_middleware_param | Some _ \<Rightarrow> Use_range middlewares)"

definition Use ::
  "(nat \<Rightarrow> nat \<Rightarrow> nat) \<Rightarrow> 'h Middleware option list \<Rightarrow> 'h Route \<Rightarrow> ('f, 'h) world
     \<Rightarrow> panic option \<times> 'h Route \<times> ('f, 'h) world"
where
  "Use grow middlewares r w =
     (case Use_range middlewares of
        Some p \<Rightarrow> (Some p, r, w)
      | None \<Rightarrow>
          (let (s, a) = append_slice grow (Middlewares r) middlewares (arrays w)
           in (None, Route (Path r) s (Routes r) (Handler r) (Method r), w\<lparr>arrays := a\<rparr>)))"

text \<open>
  \<^verbatim>\<open>
  func (r *Route) Add(routes ...*Route) *Route {
      for _, route := range routes {
          if route == nil { panic("routes parameter cannot contain nil routes") }
      }
      r.Routes = append(r.Routes, routes...)
      return r
  }
  \<close>
  A \<^verbatim>\<open>*Route\<close> argument can be nil: \<open>None\<close>.
\<close>

fun Add_range :: "'h Route option list \<Rightarrow> panic option" where
  "Add_range [] = None"
| "Add_range (route # routes) =
     (case route of None \<Rightarrow> Some nil_route_param | Some _ \<Rightarrow> Add_range routes)"

definition Add :: "'h Route option list \<Rightarrow> 'h Route \<Rightarrow> panic option \<times> 'h Route" where
  "Add routes r =
     (case Add_range routes of
        Some p \<Rightarrow> (Some p, r)
      | None \<Rightarrow>
          (None, Route (Path r) (Middlewares r) (Routes r @ map the routes) (Handler r) (Method r)))"


section \<open>The Tree Compiler\<close>

text \<open>
  \<^verbatim>\<open>
  func (r *Route) inspectRoute(path string, middlewares []Middleware,
                               router *http.ServeMux, walkFn WalkFn) {
      chainedPath := path + r.Path
      chainedMiddleware := append(middlewares, r.Middlewares...)
      if walkFn != nil {
          walkFn(r, path, middlewares)
      }
      if r.Handler != nil {
          router.Handle(r.Method+" "+chainedPath,
                        applyMiddleware(chainedMiddleware...)(r.Handler))
      }
      for _, route := range r.Routes {
          route.inspectRoute(chainedPath, chainedMiddleware, router, walkFn)
      }
  }
  \<close>
  \<open>inspectRoute_range\<close> is the \<^verbatim>\<open>for\<close> loop over the children. The function returns
  nothing; the model returns the panic that ended it, if any, and the world it leaves.
\<close>

fun inspectRoute ::
  "(nat \<Rightarrow> nat \<Rightarrow> nat) \<Rightarrow> 'h Route \<Rightarrow> string \<Rightarrow> slice \<Rightarrow> nat \<Rightarrow> 'f option \<Rightarrow> ('f, 'h) world
     \<Rightarrow> panic option \<times> ('f, 'h) world"
and inspectRoute_range ::
  "(nat \<Rightarrow> nat \<Rightarrow> nat) \<Rightarrow> 'h Route list \<Rightarrow> string \<Rightarrow> slice \<Rightarrow> nat \<Rightarrow> 'f option \<Rightarrow> ('f, 'h) world
     \<Rightarrow> panic option \<times> ('f, 'h) world"
where
  "inspectRoute grow (Route rPath rMiddlewares rRoutes rHandler rMethod)
                path middlewares router walkFn w =
     (let chainedPath = path @ rPath;
          (chainedMiddleware, a) =
             append_slice grow middlewares (slice_elems (arrays w) rMiddlewares) (arrays w);
          w1 = w\<lparr>arrays := a\<rparr>;
          w2 = (case walkFn of
                  None \<Rightarrow> w1
                | Some f \<Rightarrow>
                    w1\<lparr>calls := calls w1 @
                       [WalkFn_call f (Route rPath rMiddlewares rRoutes rHandler rMethod) path
                          (slice_elems (arrays w1) middlewares)]\<rparr>)
      in case (case rHandler of
                 None \<Rightarrow> (None, w2)
               | Some handler \<Rightarrow>
                   (case applyMiddleware chainedMiddleware (arrays w2) handler of
                      Inl p \<Rightarrow> (Some p, w2)
                    | Inr composed \<Rightarrow>
                        (None, ServeMux_Handle router (rMethod @ '' '' @ chainedPath) composed w2)))
         of (Some p, w3) \<Rightarrow> (Some p, w3)
          | (None, w3) \<Rightarrow>
              inspectRoute_range grow rRoutes chainedPath chainedMiddleware router walkFn w3)"
| "inspectRoute_range grow [] path middlewares router walkFn w = (None, w)"
| "inspectRoute_range grow (route # routes) path middlewares router walkFn w =
     (case inspectRoute grow route path middlewares router walkFn w of
        (Some p, w') \<Rightarrow> (Some p, w')
      | (None, w') \<Rightarrow> inspectRoute_range grow routes path middlewares router walkFn w')"


section \<open>The Mount entry points\<close>


definition MountAndWalk ::
  "(nat \<Rightarrow> nat \<Rightarrow> nat) \<Rightarrow> 'h Route \<Rightarrow> 'f option \<Rightarrow> ('f, 'h) world
     \<Rightarrow> (panic + nat) \<times> ('f, 'h) world"
where
  "MountAndWalk grow r walkFn w =
     (if walkFn = None then (Inl nil_walkFn_param, w)
      else (let (router, w1) = http_NewServeMux w
            in case inspectRoute grow r '''' empty_slice router walkFn w1 of
                 (Some p, w2) \<Rightarrow> (Inl p, w2)
               | (None, w2) \<Rightarrow> (Inr router, w2)))"


section \<open>The vocabulary of the specification\<close>

text \<open>
  The definitions of this section are not translated from the source. They say, in the
  spec's words, what the compiled output should be, and the theorems below compare them
  with what the functions above do.
\<close>

text \<open>\<open>m0(m1(...mN-1(H)))\<close> for the list \<open>[m0, m1, ..., mN-1]\<close>.\<close>

fun nested :: "'h Middleware list \<Rightarrow> 'h \<Rightarrow> 'h" where
  "nested [] H = H"
| "nested (m # ms) H = m (nested ms H)"


text \<open>The middlewares a node holds itself.\<close>

definition own_middlewares :: "'h arrays \<Rightarrow> 'h Route \<Rightarrow> 'h Middleware list" where
  "own_middlewares a r = map the (slice_elems a (Middlewares r))"












text \<open>The same tree with every method token erased.\<close>

fun erase_methods :: "'h Route \<Rightarrow> 'h Route" where
  "erase_methods (Route p s rs h m) = Route p s (map erase_methods rs) h ''''"




section \<open>Auxiliary notions of the proofs\<close>








section \<open>A route tree to run the functions on\<close>

text \<open>
  Handlers are taken to be the list of names a request passes through when it is
  served, as the tests observe them: \<^verbatim>\<open>middlewareTracker\<close> records its name and calls the
  next handler, \<^verbatim>\<open>handlerWriter\<close> ends the chain with its response.
\<close>

definition middlewareTracker :: "string \<Rightarrow> string list Middleware" where
  "middlewareTracker name = (\<lambda>next. name # next)"

definition handlerWriter :: "string \<Rightarrow> string list" where
  "handlerWriter response = [response]"

text \<open>A growth policy that doubles, so that appended slices have spare capacity.\<close>

definition double_grow :: "nat \<Rightarrow> nat \<Rightarrow> nat" where
  "double_grow old needed = 2 * needed"

text \<open>
  \<^verbatim>\<open>
  NewRoute("/api").Use(general).Add(
      NewRoute("/foo").Use(foo).Add(Get(getFoo).Use(getFooMw)),
      NewRoute("/bar").Use(bar).Add(Post(postBar)),
      NewRoute("/any").Add(All(anyHandler)),
      NewRoute("/none"))
  \<close>
\<close>

definition api_arrays :: "string list arrays" where
  "api_arrays =
     [[Some (middlewareTracker ''general'')],
      [Some (middlewareTracker ''foo'')],
      [Some (middlewareTracker ''getFooMw'')],
      [Some (middlewareTracker ''bar'')]]"

definition api_tree :: "string list Route" where
  "api_tree =
     Route ''/api'' (Slice 0 1 1)
       [Route ''/foo'' (Slice 1 1 1)
          [Route '''' (Slice 2 1 1) [] (Some (handlerWriter ''getFoo'')) ''GET'']
          None '''',
        Route ''/bar'' (Slice 3 1 1)
          [Route '''' empty_slice [] (Some (handlerWriter ''postBar'')) ''POST'']
          None '''',
        Route ''/any'' empty_slice
          [Route '''' empty_slice [] (Some (handlerWriter ''anyHandler'')) '''']
          None '''',
        Route ''/none'' empty_slice [] None '''']
       None ''''"

definition api_world :: "(string, string list) world" where
  "api_world = \<lparr>arrays = api_arrays, calls = []\<rparr>"





section \<open>Slices and the composer\<close>

lemma nested_snoc: "nested (ms @ [m]) H = nested ms (m H)"
  by (induction ms) simp_all

lemma nested_fold_rev: "nested ms H = fold (\<lambda>m h. m h) (rev ms) H"
  by (induction ms arbitrary: H rule: rev_induct) (simp_all add: nested_snoc)

lemma slice_elems_nth:
  assumes "valid_slice a s" "slice_elems a s = map Some ms" "k < len s"
  shows "a ! arr s ! k = Some (ms ! k)"
proof -
  from assms(1,3) have "len s \<le> length (a ! arr s)"
    by (auto simp: valid_slice_def)
  with assms(3) have "a ! arr s ! k = slice_elems a s ! k"
    by (simp add: slice_elems_def)
  moreover from assms(2) have "length ms = length (slice_elems a s)" by simp
  with \<open>len s \<le> length (a ! arr s)\<close> have "length ms = len s" by (simp add: slice_elems_def)
  ultimately show ?thesis using assms(2,3) by simp
qed

lemma slice_elems_length:
  "valid_slice a s \<Longrightarrow> length (slice_elems a s) = len s"
  by (auto simp: valid_slice_def slice_elems_def)

lemma applyMiddleware_loop_nested:
  assumes "valid_slice a s" "slice_elems a s = map Some ms"
  shows "k \<le> len s \<Longrightarrow>
         applyMiddleware_loop a s (int k - 1) next = Inr (nested (take k ms) next)"
proof (induction k arbitrary: "next")
  case 0
  show ?case by (simp add: applyMiddleware_loop.simps)
next
  case (Suc k)
  from Suc.prems have k: "k < len s" by simp
  have len: "length ms = len s"
    using assms slice_elems_length[OF assms(1)] by (metis length_map)
  have "applyMiddleware_loop a s (int (Suc k) - 1) next =
        applyMiddleware_loop a s (int k - 1) ((ms ! k) next)"
    using k slice_elems_nth[OF assms k]
    by (subst applyMiddleware_loop.simps) (simp add: slice_index_def)
  also have "\<dots> = Inr (nested (take k ms) ((ms ! k) next))"
    using Suc.IH k by simp
  also have "nested (take k ms) ((ms ! k) next) = nested (take (Suc k) ms) next"
    using k len by (simp add: take_Suc_conv_app_nth nested_snoc)
  finally show ?case .
qed

lemma applyMiddleware_nested:
  assumes "valid_slice a s" "slice_elems a s = map Some ms"
  shows "applyMiddleware s a H = Inr (nested ms H)"
proof -
  have len: "length ms = len s"
    using assms slice_elems_length[OF assms(1)] by (metis length_map)
  show ?thesis
    unfolding applyMiddleware_def
    using applyMiddleware_loop_nested[OF assms, of "len s" H] len by simp
qed







lemma append_slice_cases:
  assumes "append_slice g s xs a = (s', a')"
  obtains
    (in_place) "len s + length xs \<le> cap s" "s' = Slice (arr s) (len s + length xs) (cap s)"
      "a' = a[arr s := take (len s) (a ! arr s) @ xs @ drop (len s + length xs) (a ! arr s)]"
  | (grown) c where "cap s < len s + length xs" "len s + length xs \<le> c"
      "s' = Slice (length a) (len s + length xs) c"
      "a' = a @ [take (len s) (a ! arr s) @ xs @ replicate (c - (len s + length xs)) None]"
proof (cases "len s + length xs \<le> cap s")
  case True
  with assms show ?thesis
    by (intro in_place) (auto simp add: append_slice_def Let_def)
next
  case False
  with assms show ?thesis
    by (intro grown[of "max (len s + length xs) (g (cap s) (len s + length xs))"])
       (auto simp add: append_slice_def Let_def)
qed

lemma append_slice_valid:
  assumes "valid_slice a s" "append_slice g s xs a = (s', a')"
  shows "valid_slice a' s'"
  using assms(2)
proof (cases rule: append_slice_cases)
  case in_place
  with assms(1) show ?thesis
    by (auto simp: valid_slice_def)
next
  case (grown c)
  with assms(1) show ?thesis
    by (auto simp: valid_slice_def)
qed

lemma append_slice_elems:
  assumes "valid_slice a s" "append_slice g s xs a = (s', a')"
  shows "slice_elems a' s' = slice_elems a s @ xs"
  using assms(2)
proof (cases rule: append_slice_cases)
  case in_place
  show ?thesis
  proof (cases "cap s = 0")
    case True
    with in_place assms(1) show ?thesis
      by (simp add: valid_slice_def slice_elems_def)
  next
    case False
    with in_place assms(1) show ?thesis
      by (simp add: valid_slice_def slice_elems_def)
  qed
next
  case (grown c)
  show ?thesis
  proof (cases "cap s = 0")
    case True
    with grown assms(1) show ?thesis
      by (simp add: valid_slice_def slice_elems_def)
  next
    case False
    with grown assms(1) show ?thesis
      by (simp add: valid_slice_def slice_elems_def)
  qed
qed































section \<open>The calls of the Mount entry points\<close>






section \<open>Positions of a tree\<close>









section \<open>Registrations, callbacks and the example tree\<close>














lemma erase_methods_sel:
  "Path (erase_methods t) = Path t"
  "Middlewares (erase_methods t) = Middlewares t"
  "Routes (erase_methods t) = map erase_methods (Routes t)"
  "Handler (erase_methods t) = Handler t"
  "Method (erase_methods t) = ''''"
  by (cases t; simp)+




lemma own_middlewares_erase_methods:
  "own_middlewares a (erase_methods r) = own_middlewares a r"
  by (simp add: own_middlewares_def erase_methods_sel)







section \<open>The builder methods, the store and the muxes\<close>

lemma Use_range_None: "Use_range middlewares = None \<longleftrightarrow> None \<notin> set middlewares"
  by (induction middlewares) (auto split: option.splits)

lemma Use_range_Some: "None \<in> set middlewares \<Longrightarrow> Use_range middlewares = Some nil_middleware_param"
  by (induction middlewares) (auto split: option.splits)

lemma Add_range_None: "Add_range routes = None \<longleftrightarrow> None \<notin> set routes"
  by (induction routes) (auto split: option.splits)

lemma Add_range_Some: "None \<in> set routes \<Longrightarrow> Add_range routes = Some nil_route_param"
  by (induction routes) (auto split: option.splits)

lemma map_Some_the_set: "None \<notin> set xs \<Longrightarrow> map Some (map the xs) = xs"
  by (induction xs) auto

lemma api_root_slice: "valid_slice (arrays api_world) (Middlewares api_tree)"
  by (simp add: api_world_def api_tree_def api_arrays_def valid_slice_def)

lemma api_root_elems:
  "slice_elems (arrays api_world) (Middlewares api_tree) = [Some (middlewareTracker ''general'')]"
  by (simp add: api_world_def api_tree_def api_arrays_def slice_elems_def)










section \<open>The Middleware Composer composes in list order\<close>

text \<open>
  Claim C1. For every middleware list \<open>[m0, ..., mN-1]\<close> held by a slice and every
  terminal handler \<open>H\<close>, \<^verbatim>\<open>applyMiddleware\<close> returns without panic the handler
  \<open>m0(m1(...mN-1(H)))\<close>; this is the fold of the list from its last element to its
  first; and for the empty list the result is \<open>H\<close> itself.
\<close>

theorem applyMiddleware_nests_first_to_last:
  assumes "valid_slice a mws" and "slice_elems a mws = map Some ms"
  shows "applyMiddleware mws a H = Inr (nested ms H) \<and>
         nested ms H = fold (\<lambda>m h. m h) (rev ms) H \<and>
         (ms = [] \<longrightarrow> applyMiddleware mws a H = Inr H)"
proof -
  have "applyMiddleware mws a H = Inr (nested ms H)"
    using assms by (rule applyMiddleware_nested)
  moreover have "nested ms H = fold (\<lambda>m h. m h) (rev ms) H"
    by (rule nested_fold_rev)
  ultimately show ?thesis by auto
qed

text \<open>
  Three trackers and a terminal handler, in a slice with one slot of spare capacity: the
  composed handler passes through \<open>m0\<close> first and reaches \<open>H\<close> last.
\<close>

theorem applyMiddleware_nests_first_to_last_witness:
  "valid_slice [[Some (middlewareTracker ''m0''), Some (middlewareTracker ''m1''),
                 Some (middlewareTracker ''m2''), None]] (Slice 0 3 4) \<and>
   slice_elems [[Some (middlewareTracker ''m0''), Some (middlewareTracker ''m1''),
                 Some (middlewareTracker ''m2''), None]] (Slice 0 3 4) =
     map Some [middlewareTracker ''m0'', middlewareTracker ''m1'', middlewareTracker ''m2''] \<and>
   applyMiddleware (Slice 0 3 4)
     [[Some (middlewareTracker ''m0''), Some (middlewareTracker ''m1''),
       Some (middlewareTracker ''m2''), None]] (handlerWriter ''H'') =
     Inr [''m0'', ''m1'', ''m2'', ''H'']"
  using applyMiddleware_nests_first_to_last
    [of "[[Some (middlewareTracker ''m0''), Some (middlewareTracker ''m1''),
           Some (middlewareTracker ''m2''), None]]" "Slice 0 3 4"
        "[middlewareTracker ''m0'', middlewareTracker ''m1'', middlewareTracker ''m2'']"
        "handlerWriter ''H''"]
  by (simp add: valid_slice_def slice_elems_def middlewareTracker_def handlerWriter_def)


section \<open>MountAndWalk without a callback\<close>

text \<open>
  Claim C8. \<^verbatim>\<open>MountAndWalk\<close> with a nil callback panics with the message of the source and
  leaves the world as it was: no mux is created, no callback and no registration call is
  made, and no array of the store is written.
\<close>

theorem MountAndWalk_nil_walkFn_panics:
  "MountAndWalk grow r None w = (Inl nil_walkFn_param, w)"
  by (simp add: MountAndWalk_def)


section \<open>The registered handlers\<close>




section \<open>The registered paths\<close>




section \<open>The registered patterns\<close>





section \<open>The order of the traversal\<close>




section \<open>The inspection callback\<close>




section \<open>The method token\<close>




section \<open>The builder methods\<close>

text \<open>
  Claim C7. \<^verbatim>\<open>Use\<close> panics when a supplied middleware is nil and \<^verbatim>\<open>Add\<close> panics when a
  supplied route is nil, wherever the nil stands in the argument list, and then the node
  and the world are what they were before the call: nothing has been appended. When no
  argument is nil, the node's middleware slice afterwards holds the elements it held
  followed by the arguments in the order given (for a node whose slice is a slice of the
  store), its child list is the old one followed by the arguments in the order given,
  and the other fields are unchanged.
\<close>

theorem Use_Add_reject_nil_atomically:
  fixes w :: "('f, 'h) world"
  shows "(None \<in> set middlewares \<longrightarrow>
            Use grow middlewares r w = (Some nil_middleware_param, r, w)) \<and>
         (None \<notin> set middlewares \<and> valid_slice (arrays w) (Middlewares r) \<longrightarrow>
            (\<exists>s w'. Use grow middlewares r w =
                       (None, Route (Path r) s (Routes r) (Handler r) (Method r), w') \<and>
                    slice_elems (arrays w') s =
                      slice_elems (arrays w) (Middlewares r) @ middlewares \<and>
                    valid_slice (arrays w') s \<and> calls w' = calls w)) \<and>
         (None \<in> set routes \<longrightarrow> Add routes r = (Some nil_route_param, r)) \<and>
         (None \<notin> set routes \<longrightarrow>
            (\<exists>rs. Add routes r =
                     (None, Route (Path r) (Middlewares r) rs (Handler r) (Method r)) \<and>
                   map Some rs = map Some (Routes r) @ routes))"
proof (intro conjI impI)
  assume "None \<in> set middlewares"
  then show "Use grow middlewares r w = (Some nil_middleware_param, r, w)"
    by (simp add: Use_def Use_range_Some)
next
  assume a: "None \<notin> set middlewares \<and> valid_slice (arrays w) (Middlewares r)"
  obtain s a' where app: "append_slice grow (Middlewares r) middlewares (arrays w) = (s, a')"
    by (cases "append_slice grow (Middlewares r) middlewares (arrays w)")
  from a have "Use_range middlewares = None" by (simp add: Use_range_None)
  with app have "Use grow middlewares r w =
      (None, Route (Path r) s (Routes r) (Handler r) (Method r), w\<lparr>arrays := a'\<rparr>)"
    by (simp add: Use_def)
  moreover have "slice_elems a' s = slice_elems (arrays w) (Middlewares r) @ middlewares"
    using a app append_slice_elems[of "arrays w" "Middlewares r" grow middlewares s a'] by blast
  moreover have "valid_slice a' s"
    using a app append_slice_valid[of "arrays w" "Middlewares r" grow middlewares s a'] by blast
  ultimately show "\<exists>s w'. Use grow middlewares r w =
                       (None, Route (Path r) s (Routes r) (Handler r) (Method r), w') \<and>
                    slice_elems (arrays w') s =
                      slice_elems (arrays w) (Middlewares r) @ middlewares \<and>
                    valid_slice (arrays w') s \<and> calls w' = calls w"
    by (intro exI[of _ s] exI[of _ "w\<lparr>arrays := a'\<rparr>"]) simp
next
  assume "None \<in> set routes"
  then show "Add routes r = (Some nil_route_param, r)"
    by (simp add: Add_def Add_range_Some)
next
  assume "None \<notin> set routes"
  then have "Add_range routes = None" and "map Some (map the routes) = routes"
    by (simp_all add: Add_range_None map_Some_the_set del: map_map)
  then have "Add routes r =
        (None, Route (Path r) (Middlewares r) (Routes r @ map the routes) (Handler r) (Method r)) \<and>
      map Some (Routes r @ map the routes) = map Some (Routes r) @ routes"
    by (simp add: Add_def del: map_map)
  then show "\<exists>rs. Add routes r =
                     (None, Route (Path r) (Middlewares r) rs (Handler r) (Method r)) \<and>
                   map Some rs = map Some (Routes r) @ routes"
    by (rule exI)
qed

text \<open>
  The calls of the tests \<^verbatim>\<open>TestUseWithMixedNilMiddleware\<close> and
  \<^verbatim>\<open>TestAddWithMixedNilRoute\<close>, a valid element followed by nil, and two calls without
  nil on the example tree.
\<close>

theorem Use_Add_reject_nil_atomically_witness:
  "Use double_grow [Some (middlewareTracker ''m1''), None] (NewRoute ''/test'') api_world =
     (Some nil_middleware_param, NewRoute ''/test'', api_world) \<and>
   Add [Some (Get (Some (handlerWriter ''h1''))), None] (NewRoute ''/test'') =
     (Some nil_route_param, NewRoute ''/test'') \<and>
   valid_slice (arrays api_world) (Middlewares api_tree) \<and>
   slice_elems
     (arrays (snd (snd (Use double_grow
        [Some (middlewareTracker ''m1''), Some (middlewareTracker ''m2'')] api_tree api_world))))
     (Middlewares (fst (snd (Use double_grow
        [Some (middlewareTracker ''m1''), Some (middlewareTracker ''m2'')] api_tree api_world)))) =
     [Some (middlewareTracker ''general''), Some (middlewareTracker ''m1''),
      Some (middlewareTracker ''m2'')] \<and>
   Routes (snd (Add [Some (NewRoute ''/a''), Some (NewRoute ''/b'')] api_tree)) =
     Routes api_tree @ [NewRoute ''/a'', NewRoute ''/b'']"
proof -
  note nil = Use_Add_reject_nil_atomically[of "[Some (middlewareTracker ''m1''), None]"
      double_grow "NewRoute ''/test''" api_world
      "[Some (Get (Some (handlerWriter ''h1''))), None]"]
  note ok = Use_Add_reject_nil_atomically[of
      "[Some (middlewareTracker ''m1''), Some (middlewareTracker ''m2'')]"
      double_grow api_tree api_world "[Some (NewRoute ''/a''), Some (NewRoute ''/b'')]"]
  have 1: "Use double_grow [Some (middlewareTracker ''m1''), None] (NewRoute ''/test'') api_world =
     (Some nil_middleware_param, NewRoute ''/test'', api_world)"
    using nil by simp
  have 2: "Add [Some (Get (Some (handlerWriter ''h1''))), None] (NewRoute ''/test'') =
     (Some nil_route_param, NewRoute ''/test'')"
    using nil by simp
  from ok api_root_slice obtain s w' where
    "Use double_grow [Some (middlewareTracker ''m1''), Some (middlewareTracker ''m2'')]
        api_tree api_world =
       (None, Route (Path api_tree) s (Routes api_tree) (Handler api_tree) (Method api_tree), w')"
    "slice_elems (arrays w') s =
       slice_elems (arrays api_world) (Middlewares api_tree) @
       [Some (middlewareTracker ''m1''), Some (middlewareTracker ''m2'')]"
    by auto
  then have 3: "slice_elems
     (arrays (snd (snd (Use double_grow
        [Some (middlewareTracker ''m1''), Some (middlewareTracker ''m2'')] api_tree api_world))))
     (Middlewares (fst (snd (Use double_grow
        [Some (middlewareTracker ''m1''), Some (middlewareTracker ''m2'')] api_tree api_world)))) =
     [Some (middlewareTracker ''general''), Some (middlewareTracker ''m1''),
      Some (middlewareTracker ''m2'')]"
    by (simp add: api_root_elems)
  from ok obtain rs where
    "Add [Some (NewRoute ''/a''), Some (NewRoute ''/b'')] api_tree =
       (None, Route (Path api_tree) (Middlewares api_tree) rs (Handler api_tree) (Method api_tree))"
    "map Some rs = map Some (Routes api_tree) @ [Some (NewRoute ''/a''), Some (NewRoute ''/b'')]"
    by auto
  then have "map Some (Routes (snd (Add [Some (NewRoute ''/a''), Some (NewRoute ''/b'')] api_tree))) =
      map Some (Routes api_tree @ [NewRoute ''/a'', NewRoute ''/b''])"
    by simp
  then have 4: "Routes (snd (Add [Some (NewRoute ''/a''), Some (NewRoute ''/b'')] api_tree)) =
      Routes api_tree @ [NewRoute ''/a'', NewRoute ''/b'']"
    by (simp only: inj_map_eq_map[OF inj_Some])
  from 1 2 api_root_slice 3 4 show ?thesis by blast
qed


section \<open>Mounting changes neither the tree nor another mux\<close>



end
